theory Spec2Isabelle
  imports Complex_Main
begin

section \<open>Energy market simulation: nanogrids, matching engine and ledger\<close>

text \<open>
  A shallow embedding of the simulation core of \<^verbatim>\<open>src/backend/app.py\<close>: the classes
  \<^verbatim>\<open>Battery\<close>, \<^verbatim>\<open>SolarPanel\<close>, \<^verbatim>\<open>Nanogrid\<close>, \<^verbatim>\<open>Blockchain\<close> and \<^verbatim>\<open>AI_Controller\<close>, the loop
  body of \<^verbatim>\<open>run_simulation_thread\<close> and the simulation branch of
  \<^verbatim>\<open>get_blockchain_transactions\<close>.

  Python's \<^verbatim>\<open>float\<close> quantities (kW, kWh, seconds) are values of \<^typ>\<open>real\<close>, without
  infinities or NaN. The update of a nanogrid's power balance by a trade rounds its
  result to a double, as the source's subtraction does; comparisons, \<^verbatim>\<open>min\<close>, \<^verbatim>\<open>max\<close>,
  \<^verbatim>\<open>abs\<close> and negation are exact on doubles. The battery's arithmetic and the net power
  of \<^verbatim>\<open>update_state\<close> are the exact ones: the clamps and the comparisons that the
  properties of those operations rest on are not affected by rounding.
\<close>

subsection \<open>Battery\<close>

record Battery =
  battery_id :: int
  capacity :: real
  state_of_charge :: real
  health :: real

text \<open>\<^verbatim>\<open>Battery.__init__(battery_id, capacity_kwh=20.0)\<close>: no check, no raise.\<close>

definition Battery_init :: "int \<Rightarrow> real \<Rightarrow> Battery" where
  "Battery_init bid capacity_kwh =
     \<lparr>battery_id = bid, capacity = capacity_kwh,
      state_of_charge = capacity_kwh / 2, health = 100\<rparr>"

definition charge :: "Battery \<Rightarrow> real \<Rightarrow> real \<Rightarrow> Battery" where
  "charge b power_kw time_step_h =
     b\<lparr>state_of_charge := min (capacity b) (state_of_charge b + power_kw * time_step_h)\<rparr>"

definition discharge :: "Battery \<Rightarrow> real \<Rightarrow> real \<Rightarrow> Battery" where
  "discharge b power_kw time_step_h =
     b\<lparr>state_of_charge := max 0 (state_of_charge b - power_kw * time_step_h)\<rparr>"

text \<open>A sequence of calls on one battery object: each call names its two arguments.\<close>

datatype battery_call = Charge real real | Discharge real real

fun apply_call :: "Battery \<Rightarrow> battery_call \<Rightarrow> Battery" where
  "apply_call b (Charge p dt) = charge b p dt"
| "apply_call b (Discharge p dt) = discharge b p dt"

fun call_energy :: "battery_call \<Rightarrow> real" where
  "call_energy (Charge p dt) = p * dt"
| "call_energy (Discharge p dt) = p * dt"

definition run_calls :: "Battery \<Rightarrow> battery_call list \<Rightarrow> Battery" where
  "run_calls b cs = foldl apply_call b cs"

subsection \<open>Rounding to a double\<close>

text \<open>
  A Python \<^verbatim>\<open>float\<close> is an IEEE 754 binary64 number, and the result of an arithmetic
  operation is the exact result rounded to the nearest double, ties to the even
  significand. \<open>double_exponent x\<close> is the binary exponent of \<open>x\<close>, that is \<open>e\<close> with
  \<open>2 ^ e \<le> |x| < 2 ^ (e + 1)\<close>, found by halving or doubling, and not below \<open>-1022\<close>, the
  exponent of the subnormal numbers. The doubles of that exponent are the multiples of
  \<open>2 ^ (e - 52)\<close>. The exponent is not above 1023; a result beyond the largest double, which
  IEEE arithmetic turns into an infinity, is outside this model.
\<close>

fun halvings :: "nat \<Rightarrow> real \<Rightarrow> nat" where
  "halvings 0 x = 0"
| "halvings (Suc n) x = (if x < 2 then 0 else Suc (halvings n (x / 2)))"

fun doublings :: "nat \<Rightarrow> real \<Rightarrow> nat" where
  "doublings 0 x = 0"
| "doublings (Suc n) x = (if 1 \<le> x then 0 else Suc (doublings n (2 * x)))"

definition double_exponent :: "real \<Rightarrow> int" where
  "double_exponent x =
     (if 1 \<le> \<bar>x\<bar> then int (halvings 1023 \<bar>x\<bar>) else - int (doublings 1022 \<bar>x\<bar>))"

definition round_half_even :: "real \<Rightarrow> int" where
  "round_half_even y =
     (let f = \<lfloor>y\<rfloor>; d = y - of_int f
      in if d < 1 / 2 then f else if 1 / 2 < d then f + 1
         else if even f then f else f + 1)"

definition round_double :: "real \<Rightarrow> real" where
  "round_double x =
     (if x = 0 then 0
      else (let k = double_exponent x - 52
            in if 0 \<le> k then of_int (round_half_even (x / 2 ^ nat k)) * 2 ^ nat k
               else of_int (round_half_even (x * 2 ^ nat (- k))) / 2 ^ nat (- k)))"

subsection \<open>SolarPanel and Nanogrid\<close>

text \<open>
  \<^verbatim>\<open>SolarPanel\<close> keeps its id and the last output (the attribute \<^verbatim>\<open>output\<close>, here \<open>panel_output\<close>). \<^verbatim>\<open>get_output\<close> (a sine of the time of
  day) is not called by the simulation loop, which draws the output at random, and is not
  modelled.
\<close>

record SolarPanel =
  panel_id :: int
  panel_output :: real

definition SolarPanel_init :: "int \<Rightarrow> SolarPanel" where
  "SolarPanel_init pid = \<lparr>panel_id = pid, panel_output = 0\<rparr>"

record Nanogrid =
  nanogrid_id :: int
  solar_panel :: SolarPanel
  battery :: Battery
  load_demand :: real
  current_power_balance :: real

definition Nanogrid_init :: "int \<Rightarrow> Nanogrid" where
  "Nanogrid_init nid =
     \<lparr>nanogrid_id = nid, solar_panel = SolarPanel_init nid,
      battery = Battery_init nid 20, load_demand = 5, current_power_balance = 0\<rparr>"

text \<open>The dictionary \<^verbatim>\<open>update_state\<close> returns.\<close>

record snapshot =
  snap_nanogrid_id :: int
  snap_solar_output :: real
  snap_load_demand :: real
  battery_soc :: real
  power_balance :: real

text \<open>
  \<^verbatim>\<open>Nanogrid.update_state(solar_output)\<close>: the node after the call, and the returned
  dictionary. The battery calls use the default \<^verbatim>\<open>time_step_h = 1.0\<close>.
\<close>

definition update_state :: "Nanogrid \<Rightarrow> real \<Rightarrow> Nanogrid \<times> snapshot" where
  "update_state ng solar_output =
     (let net_power = solar_output - load_demand ng;
          b = (if net_power > 0 then charge (battery ng) net_power 1
               else discharge (battery ng) \<bar>net_power\<bar> 1);
          ng' = ng\<lparr>battery := b, current_power_balance := net_power,
                    solar_panel := (solar_panel ng)\<lparr>panel_output := solar_output\<rparr>\<rparr>
      in (ng',
          \<lparr>snap_nanogrid_id = nanogrid_id ng', snap_solar_output = solar_output,
           snap_load_demand = load_demand ng',
           battery_soc = state_of_charge (battery ng'),
           power_balance = current_power_balance ng'\<rparr>))"

text \<open>
  \<^verbatim>\<open>Nanogrid.set_energy_trade(amount)\<close>: positive is selling, otherwise buying.
  \<^verbatim>\<open>self.current_power_balance -= amount\<close> is a subtraction of doubles: the balance becomes
  the difference, rounded.
\<close>

definition set_energy_trade :: "Nanogrid \<Rightarrow> real \<Rightarrow> Nanogrid" where
  "set_energy_trade ng amount =
     (let b = (if amount > 0 then discharge (battery ng) amount 1
               else charge (battery ng) \<bar>amount\<bar> 1)
      in ng\<lparr>battery := b,
            current_power_balance := round_double (current_power_balance ng - amount)\<rparr>)"

subsection \<open>Blockchain\<close>

type_synonym address = string

text \<open>An entry of \<^verbatim>\<open>Blockchain.transactions\<close>: the dictionary \<^verbatim>\<open>add_transaction\<close> appends.\<close>

record trade =
  sender :: address
  receiver :: address
  amount :: real

text \<open>
  A block dictionary. \<^verbatim>\<open>new_block\<close> builds it with four entries and adds the entry
  \<^verbatim>\<open>"hash"\<close> afterwards, so that entry is optional: \<open>None\<close> is the dictionary without it.
\<close>

record Block =
  index :: int
  timestamp :: real
  block_transactions :: "trade list"
  previous_hash :: string
  block_hash :: "string option"

record Blockchain =
  chain :: "Block list"
  transactions :: "trade list"

text \<open>
  \<^verbatim>\<open>Blockchain.hash(block)\<close> is \<^verbatim>\<open>hashlib.sha256(str(block).encode()).hexdigest()\<close>, a
  function of the dictionary's entries. The library functions are not part of the
  repository: the operations below take that function as the parameter \<open>H\<close>, and the
  clock reading \<^verbatim>\<open>time.time()\<close> as the parameter \<open>now\<close>.
\<close>

text \<open>
  Python's \<^verbatim>\<open>previous_hash or d\<close> for an optional string: \<^verbatim>\<open>None\<close> and \<^verbatim>\<open>""\<close> are false
  and give \<open>d\<close>.
\<close>

fun py_or :: "string option \<Rightarrow> string \<Rightarrow> string" where
  "py_or None d = d"
| "py_or (Some s) d = (if s = [] then d else s)"

text \<open>
  \<^verbatim>\<open>new_block(previous_hash=None)\<close>. The entry is
  \<^verbatim>\<open>previous_hash or self.hash(self.chain[-1]) if self.chain else "0"\<close>, which Python reads
  as \<^verbatim>\<open>(previous_hash or self.hash(self.chain[-1])) if self.chain else "0"\<close>. The block
  hashed for the link is the stored one, with its \<^verbatim>\<open>"hash"\<close> entry. Returns the ledger
  after the call and the new block.
\<close>

definition new_block ::
  "(Block \<Rightarrow> string) \<Rightarrow> real \<Rightarrow> string option \<Rightarrow> Blockchain \<Rightarrow> Blockchain \<times> Block" where
  "new_block H now prev bc =
     (let block = \<lparr>index = int (length (chain bc)) + 1, timestamp = now,
                   block_transactions = transactions bc,
                   previous_hash =
                     (if chain bc \<noteq> [] then py_or prev (H (last (chain bc)))
                      else ''0''),
                   block_hash = None\<rparr>;
          block' = block\<lparr>block_hash := Some (H block)\<rparr>
      in (\<lparr>chain = chain bc @ [block'], transactions = []\<rparr>, block'))"

text \<open>\<^verbatim>\<open>Blockchain.__init__\<close>: empty chain and buffer, then \<^verbatim>\<open>new_block(previous_hash="0")\<close>.\<close>

definition Blockchain_init :: "(Block \<Rightarrow> string) \<Rightarrow> real \<Rightarrow> Blockchain" where
  "Blockchain_init H now = fst (new_block H now (Some ''0'') \<lparr>chain = [], transactions = []\<rparr>)"

definition add_transaction :: "Blockchain \<Rightarrow> address \<Rightarrow> address \<Rightarrow> real \<Rightarrow> Blockchain" where
  "add_transaction bc s r a =
     bc\<lparr>transactions := transactions bc @ [\<lparr>sender = s, receiver = r, amount = a\<rparr>]\<rparr>"

text \<open>The four entries a block's hash is computed over: the block without \<^verbatim>\<open>"hash"\<close>.\<close>

definition unsealed :: "Block \<Rightarrow> Block" where
  "unsealed b = b\<lparr>block_hash := None\<rparr>"

text \<open>A sequence of calls on one ledger object, each with its arguments and clock reading.\<close>

datatype ledger_call = New_block real "string option" | Add_transaction address address real

fun apply_ledger_call :: "(Block \<Rightarrow> string) \<Rightarrow> Blockchain \<Rightarrow> ledger_call \<Rightarrow> Blockchain" where
  "apply_ledger_call H bc (New_block now prev) = fst (new_block H now prev bc)"
| "apply_ledger_call H bc (Add_transaction s r a) = add_transaction bc s r a"

definition run_ledger :: "(Block \<Rightarrow> string) \<Rightarrow> Blockchain \<Rightarrow> ledger_call list \<Rightarrow> Blockchain" where
  "run_ledger H bc cs = foldl (apply_ledger_call H) bc cs"

subsection \<open>AI\_Controller: the matching engine\<close>

text \<open>
  The nanogrids are objects, shared by reference between the dictionary
  \<^verbatim>\<open>nanogrids\<close> and the two dictionaries \<^verbatim>\<open>sellers\<close> and \<^verbatim>\<open>buyers\<close> built from it, and
  mutated in place. An object is a reference into a store; a dictionary is the list of
  its items in insertion order, key and reference.
\<close>

type_synonym ref = int
type_synonym store = "ref \<Rightarrow> Nanogrid"
type_synonym ngdict = "(address \<times> ref) list"

text \<open>\<^verbatim>\<open>sellers.pop(seller_id)\<close>: the dictionary without that key.\<close>

definition dict_pop :: "address \<Rightarrow> ngdict \<Rightarrow> ngdict" where
  "dict_pop k d = filter (\<lambda>(k', r). k' \<noteq> k) d"

text \<open>
  The two dictionary comprehensions at the head of \<^verbatim>\<open>manage_energy_market\<close>, and the
  expression assigned to \<^verbatim>\<open>trade_amount\<close>, read from the objects as they are at that moment.
\<close>

definition sellers_of :: "store \<Rightarrow> ngdict \<Rightarrow> ngdict" where
  "sellers_of h nanogrids = filter (\<lambda>(ng_id, ng). current_power_balance (h ng) > 0) nanogrids"

definition buyers_of :: "store \<Rightarrow> ngdict \<Rightarrow> ngdict" where
  "buyers_of h nanogrids = filter (\<lambda>(ng_id, ng). current_power_balance (h ng) < 0) nanogrids"

definition trade_amount_of :: "store \<Rightarrow> ref \<Rightarrow> ref \<Rightarrow> real" where
  "trade_amount_of h buyer_ng seller_ng =
     min \<bar>current_power_balance (h buyer_ng)\<bar> (current_power_balance (h seller_ng))"

text \<open>
  The body of the loop over the buyers, for one buyer, after the test
  \<^verbatim>\<open>if not sellers: break\<close> (on an empty pool the body does nothing here; the loop below
  breaks before it).
\<close>

definition market_step ::
  "address \<times> ref \<Rightarrow> ngdict \<times> store \<times> Blockchain \<Rightarrow> ngdict \<times> store \<times> Blockchain" where
  "market_step buyer st =
     (case (buyer, st) of ((buyer_id, buyer_ng), (sellers, h, bc)) \<Rightarrow>
        (case sellers of
           [] \<Rightarrow> (sellers, h, bc)
         | (seller_id, seller_ng) # _ \<Rightarrow>
             (let trade_amount = trade_amount_of h buyer_ng seller_ng in
              if trade_amount \<le> 0 then (sellers, h, bc)
              else
                (let h1 = h(seller_ng := set_energy_trade (h seller_ng) trade_amount);
                     h2 = h1(buyer_ng := set_energy_trade (h1 buyer_ng) (- trade_amount));
                     bc' = add_transaction bc seller_id buyer_id trade_amount;
                     sellers' = (if current_power_balance (h2 seller_ng) \<le> 0
                                 then dict_pop seller_id sellers else sellers)
                 in (sellers', h2, bc')))))"

fun market_loop ::
  "ngdict \<Rightarrow> ngdict \<times> store \<times> Blockchain \<Rightarrow> ngdict \<times> store \<times> Blockchain" where
  "market_loop [] st = st"
| "market_loop (buyer # buyers) st =
     (if fst st = [] then st else market_loop buyers (market_step buyer st))"

text \<open>
  \<^verbatim>\<open>AI_Controller.manage_energy_market()\<close>: the store and the ledger after the call. The
  pool of sellers is a local variable, lost at the return.
\<close>

definition manage_energy_market :: "ngdict \<Rightarrow> store \<times> Blockchain \<Rightarrow> store \<times> Blockchain" where
  "manage_energy_market nanogrids st =
     (case st of (h, bc) \<Rightarrow>
        snd (market_loop (buyers_of h nanogrids) (sellers_of h nanogrids, h, bc)))"

text \<open>The sum of \<^verbatim>\<open>current_power_balance\<close> over the values of the dictionary.\<close>

definition total_balance :: "store \<Rightarrow> ngdict \<Rightarrow> real" where
  "total_balance h nanogrids = (\<Sum>(ng_id, ng) \<leftarrow> nanogrids. current_power_balance (h ng))"

subsection \<open>The simulation loop and the transactions endpoint\<close>

record simulation_state =
  nanogrids :: ngdict
  objects :: store
  blockchain :: Blockchain

text \<open>
  The first loop of a tick: every nanogrid, in the dictionary's order, gets a load demand
  and is updated with a solar output. The two \<^verbatim>\<open>random.uniform\<close> draws of the \<open>i\<close>-th
  nanogrid are \<open>draws i\<close>, solar output first.
\<close>

fun update_all :: "ngdict \<Rightarrow> (nat \<Rightarrow> real \<times> real) \<Rightarrow> nat \<Rightarrow> store \<Rightarrow> store" where
  "update_all [] draws i h = h"
| "update_all ((addr, ng) # rest) draws i h =
     update_all rest draws (Suc i)
       (h(ng := fst (update_state ((h ng)\<lparr>load_demand := snd (draws i)\<rparr>) (fst (draws i)))))"

text \<open>
  One iteration of \<^verbatim>\<open>while True\<close> in \<^verbatim>\<open>run_simulation_thread\<close>: the updates, then
  \<^verbatim>\<open>manage_energy_market()\<close>; the rest of the body logs and sleeps.
\<close>

definition simulation_tick :: "(nat \<Rightarrow> real \<times> real) \<Rightarrow> simulation_state \<Rightarrow> simulation_state" where
  "simulation_tick draws st =
     (let h = update_all (nanogrids st) draws 0 (objects st);
          (h', bc') = manage_energy_market (nanogrids st) (h, blockchain st)
      in st\<lparr>objects := h', blockchain := bc'\<rparr>)"

text \<open>The first \<open>n\<close> iterations of the loop, which never ends; \<open>draws k\<close> are those of tick \<open>k\<close>.\<close>

fun run_simulation :: "nat \<Rightarrow> (nat \<Rightarrow> nat \<Rightarrow> real \<times> real) \<Rightarrow> simulation_state \<Rightarrow> simulation_state" where
  "run_simulation 0 draws st = st"
| "run_simulation (Suc n) draws st = simulation_tick (draws n) (run_simulation n draws st)"

text \<open>
  The simulation branch of \<^verbatim>\<open>get_blockchain_transactions\<close>: it reads
  \<^verbatim>\<open>simulation_state["blockchain"].transactions\<close> and builds one record per entry. The
  comprehension evaluates \<^verbatim>\<open>int(time.time())\<close> once for each record: \<open>clock i\<close> is the
  reading taken for the record at position \<open>i\<close>. \<^verbatim>\<open>int\<close> truncates towards zero.
\<close>

record api_transaction =
  api_sender :: address
  api_receiver :: address
  amountInKwh :: real
  api_timestamp :: int

definition py_int :: "real \<Rightarrow> int" where
  "py_int x = (if 0 \<le> x then \<lfloor>x\<rfloor> else \<lceil>x\<rceil>)"

fun transaction_records :: "(nat \<Rightarrow> real) \<Rightarrow> nat \<Rightarrow> trade list \<Rightarrow> api_transaction list" where
  "transaction_records clock i [] = []"
| "transaction_records clock i (tx # txs) =
     \<lparr>api_sender = sender tx, api_receiver = receiver tx,
      amountInKwh = amount tx, api_timestamp = py_int (clock i)\<rparr>
     # transaction_records clock (Suc i) txs"

definition get_blockchain_transactions ::
  "(nat \<Rightarrow> real) \<Rightarrow> simulation_state \<Rightarrow> api_transaction list" where
  "get_blockchain_transactions clock st =
     transaction_records clock 0 (transactions (blockchain st))"

text \<open>
  The history the specification describes, for comparison: the trades of all sealed
  blocks, oldest block first.
\<close>

definition sealed_trades :: "Blockchain \<Rightarrow> trade list" where
  "sealed_trades bc = concat (map block_transactions (chain bc))"

text \<open>
  \<^verbatim>\<open>init_simulation(num_nanogrids)\<close>: nanogrid \<open>i + 1\<close> is stored under the key
  \<^verbatim>\<open>f"0x{i+1:040x}"\<close>, lower-case hexadecimal padded with zeros to 40 digits. Its object is
  the reference \<open>i + 1\<close>; the store that holds \<^verbatim>\<open>Nanogrid(r)\<close> at every reference \<open>r\<close> has
  each of them freshly constructed.
\<close>

definition hex_digit :: "nat \<Rightarrow> char" where
  "hex_digit d = ''0123456789abcdef'' ! (d mod 16)"

fun to_hex :: "nat \<Rightarrow> string" where
  "to_hex n = (if n < 16 then [hex_digit n] else to_hex (n div 16) @ [hex_digit (n mod 16)])"

declare to_hex.simps [simp del]

definition address_of :: "nat \<Rightarrow> address" where
  "address_of n = ''0x'' @ replicate (40 - length (to_hex n)) CHR ''0'' @ to_hex n"

definition init_simulation :: "(Block \<Rightarrow> string) \<Rightarrow> real \<Rightarrow> nat \<Rightarrow> simulation_state" where
  "init_simulation H now num_nanogrids =
     \<lparr>nanogrids = map (\<lambda>i. (address_of (i + 1), int i + 1)) [0..<num_nanogrids],
      objects = (\<lambda>r. Nanogrid_init r),
      blockchain = Blockchain_init H now\<rparr>"

subsection \<open>Inputs of the scenarios\<close>

text \<open>
  The population of the specification's matching scenario: the seller A with a balance
  of \<open>+10\<close> and the buyer B with \<open>-4\<close>, both otherwise as constructed, and a ledger holding
  its genesis block only.
\<close>

definition scenario_nanogrids :: ngdict where
  "scenario_nanogrids = [(''A'', 0), (''B'', 1)]"

definition scenario_store :: store where
  "scenario_store =
     (\<lambda>r. Nanogrid_init r)
       (0 := (Nanogrid_init 1)\<lparr>current_power_balance := 10\<rparr>,
        1 := (Nanogrid_init 2)\<lparr>current_power_balance := - 4\<rparr>)"

definition scenario_ledger :: Blockchain where
  "scenario_ledger = Blockchain_init (\<lambda>b. ''genesis'') 0"

text \<open>
  The same two nanogrids with balances whose sum is not a double: A at \<open>94.5\<close> and B at
  \<open>-4.399999999999999\<close>, the double \<open>-4953959590107544 / 2 ^ 50\<close>.
\<close>

definition rounding_store :: store where
  "rounding_store =
     (\<lambda>r. Nanogrid_init r)
       (0 := (Nanogrid_init 1)\<lparr>current_power_balance := 189 / 2\<rparr>,
        1 := (Nanogrid_init 2)\<lparr>current_power_balance := - (4953959590107544 / 2 ^ 50)\<rparr>)"

text \<open>
  The draws of a tick over two nanogrids, within the ranges of the source
  (\<^verbatim>\<open>uniform(50, 150)\<close> and \<^verbatim>\<open>uniform(25, 55)\<close>): the first nets \<open>+70\<close>, the second \<open>-5\<close>.
\<close>

definition scenario_draws :: "nat \<Rightarrow> real \<times> real" where
  "scenario_draws i = (if i = 0 then (100, 30) else (50, 55))"

definition scenario_simulation :: simulation_state where
  "scenario_simulation = init_simulation (\<lambda>b. ''genesis'') 0 2"

subsection \<open>Battery: bounds of the state of charge\<close>

lemma apply_call_capacity: "capacity (apply_call b c) = capacity b"
  by (cases c) (simp_all add: charge_def discharge_def)

lemma apply_call_bounds:
  assumes "0 \<le> state_of_charge b" and "state_of_charge b \<le> capacity b"
    and "0 \<le> call_energy c"
  shows "0 \<le> state_of_charge (apply_call b c) \<and>
         state_of_charge (apply_call b c) \<le> capacity (apply_call b c)"
  using assms by (cases c) (auto simp: charge_def discharge_def)

lemma foldl_apply_call_bounds:
  "0 \<le> state_of_charge b \<Longrightarrow> state_of_charge b \<le> capacity b \<Longrightarrow>
   \<forall>c \<in> set cs. 0 \<le> call_energy c \<Longrightarrow>
   0 \<le> state_of_charge (foldl apply_call b cs) \<and>
   state_of_charge (foldl apply_call b cs) \<le> capacity b \<and>
   capacity (foldl apply_call b cs) = capacity b"
proof (induction cs arbitrary: b)
  case Nil
  then show ?case by simp
next
  case (Cons c cs)
  have step: "0 \<le> state_of_charge (apply_call b c) \<and>
              state_of_charge (apply_call b c) \<le> capacity (apply_call b c)"
    using Cons.prems by (intro apply_call_bounds) simp_all
  have rest: "\<forall>c \<in> set cs. 0 \<le> call_energy c"
    using Cons.prems by simp
  from Cons.IH [of "apply_call b c"] step rest show ?case
    by (simp add: apply_call_capacity)
qed

text \<open>
  C6, as stated, fails: \<^verbatim>\<open>charge\<close> clamps only at the capacity and \<^verbatim>\<open>discharge\<close> only at
  zero, so a call with a negative power leaves the interval. A fresh battery of capacity
  20 (state of charge 10) after \<^verbatim>\<open>charge(-30)\<close> holds \<open>-20\<close>.
\<close>

theorem C6_negative_power_counterexample:
  "state_of_charge (run_calls (Battery_init 1 20) [Charge (-30) 1]) = -20 \<and>
   \<not> (0 \<le> state_of_charge (run_calls (Battery_init 1 20) [Charge (-30) 1]))"
  by (simp add: run_calls_def Battery_init_def charge_def)

text \<open>
  C6, amended: for a battery built with a positive capacity, after every sequence of
  \<^verbatim>\<open>charge\<close> and \<^verbatim>\<open>discharge\<close> calls whose energy \<open>power_kw * time_step_h\<close> is not negative
  (every call the repository makes is one), the state of charge is within
  \<open>[0, capacity]\<close> and the capacity is the one given at construction. Both operations are
  total: no call raises.
\<close>

theorem C6_charge_bounds:
  assumes "0 < capacity_kwh" and "\<forall>c \<in> set cs. 0 \<le> call_energy c"
  shows "0 \<le> state_of_charge (run_calls (Battery_init bid capacity_kwh) cs) \<and>
         state_of_charge (run_calls (Battery_init bid capacity_kwh) cs)
           \<le> capacity (run_calls (Battery_init bid capacity_kwh) cs) \<and>
         capacity (run_calls (Battery_init bid capacity_kwh) cs) = capacity_kwh"
proof -
  let ?b = "Battery_init bid capacity_kwh"
  have "0 \<le> state_of_charge ?b" "state_of_charge ?b \<le> capacity ?b"
    using assms(1) by (simp_all add: Battery_init_def)
  from foldl_apply_call_bounds [OF this assms(2)] show ?thesis
    by (simp add: run_calls_def Battery_init_def)
qed

text \<open>
  C6 at a fresh battery of capacity 20: \<^verbatim>\<open>charge(50)\<close> stops at 20, and a following
  \<^verbatim>\<open>discharge(70)\<close> stays within the bounds.
\<close>

theorem C6_charge_bounds_witness:
  "(0::real) < 20 \<and> 0 \<le> call_energy (Charge 50 1) \<and> 0 \<le> call_energy (Discharge 70 1) \<and>
   state_of_charge (run_calls (Battery_init 1 20) [Charge 50 1]) = 20 \<and>
   0 \<le> state_of_charge (run_calls (Battery_init 1 20) [Charge 50 1, Discharge 70 1]) \<and>
   state_of_charge (run_calls (Battery_init 1 20) [Charge 50 1, Discharge 70 1])
     \<le> capacity (run_calls (Battery_init 1 20) [Charge 50 1, Discharge 70 1])"
proof -
  have h1: "(0::real) < 20" by simp
  have h2: "\<forall>c \<in> set [Charge 50 1, Discharge 70 1]. 0 \<le> call_energy c" by simp
  have h3: "state_of_charge (run_calls (Battery_init 1 20) [Charge 50 1]) = 20"
    by (simp add: run_calls_def Battery_init_def charge_def)
  from C6_charge_bounds [OF h1 h2, of 1] h1 h2 h3 show ?thesis by simp
qed

text \<open>
  C9, as stated, fails: the constructor has no check. A capacity of zero, or a negative
  one, is stored as given.
\<close>

theorem C9_invalid_capacity_counterexample:
  "capacity (Battery_init 1 0) = 0 \<and> state_of_charge (Battery_init 1 0) = 0 \<and>
   capacity (Battery_init 1 (-5)) = -5 \<and> state_of_charge (Battery_init 1 (-5)) = -5 / 2"
  by (simp add: Battery_init_def)

text \<open>
  C9, amended: constructing a Battery never fails and validates nothing: for every
  \<open>capacity_kwh\<close>, zero and negative ones too, the battery holds that capacity, half of it
  as state of charge, and health 100.
\<close>

theorem C9_constructor_accepts_any_capacity:
  "Battery_init bid capacity_kwh =
     \<lparr>battery_id = bid, capacity = capacity_kwh,
      state_of_charge = capacity_kwh / 2, health = 100\<rparr> \<and>
   capacity (Battery_init bid capacity_kwh) = capacity_kwh \<and>
   state_of_charge (Battery_init bid capacity_kwh) = capacity_kwh / 2"
  by (simp add: Battery_init_def)

subsection \<open>Matching engine: one step, the loop, the whole call\<close>

lemma market_step_empty: "market_step buyer ([], h, bc) = ([], h, bc)"
  by (simp add: market_step_def split: prod.splits)

lemma market_step_skip:
  "trade_amount_of h buyer_ng seller_ng \<le> 0 \<Longrightarrow>
   market_step (buyer_id, buyer_ng) ((seller_id, seller_ng) # rest, h, bc)
     = ((seller_id, seller_ng) # rest, h, bc)"
  by (simp add: market_step_def)

lemma market_step_trade:
  assumes "0 < trade_amount_of h buyer_ng seller_ng"
  shows "market_step (buyer_id, buyer_ng) ((seller_id, seller_ng) # rest, h, bc) =
     (let ta = trade_amount_of h buyer_ng seller_ng;
          h1 = h(seller_ng := set_energy_trade (h seller_ng) ta);
          h2 = h1(buyer_ng := set_energy_trade (h1 buyer_ng) (- ta))
      in (if current_power_balance (h2 seller_ng) \<le> 0
          then dict_pop seller_id ((seller_id, seller_ng) # rest)
          else (seller_id, seller_ng) # rest,
          h2, add_transaction bc seller_id buyer_id ta))"
  using assms by (simp add: market_step_def Let_def)

lemma set_energy_trade_balance:
  "current_power_balance (set_energy_trade ng a) = round_double (current_power_balance ng - a)"
  by (simp add: set_energy_trade_def Let_def)

lemma map_store_upd_other:
  "r \<notin> snd ` set ngs \<Longrightarrow>
   map (\<lambda>(k, x). f ((h(r := v)) x)) ngs = map (\<lambda>(k, x). f (h x)) ngs"
  by (induction ngs) auto

lemma sum_list_store_upd:
  "distinct (map snd ngs) \<Longrightarrow> r \<in> snd ` set ngs \<Longrightarrow>
   (\<Sum>(k, x) \<leftarrow> ngs. f ((h(r := v)) x)) = (\<Sum>(k, x) \<leftarrow> ngs. f (h x)) - f (h r) + (f v :: real)"
proof (induction ngs)
  case Nil
  then show ?case by simp
next
  case (Cons p ngs)
  obtain k x where p: "p = (k, x)" by (cases p)
  show ?case
  proof (cases "x = r")
    case True
    with Cons.prems p have notin: "r \<notin> snd ` set ngs" by auto
    have "(\<Sum>(k, x) \<leftarrow> ngs. f ((h(r := v)) x)) = (\<Sum>(k, x) \<leftarrow> ngs. f (h x))"
      by (simp only: map_store_upd_other [OF notin])
    with True p show ?thesis by simp
  next
    case False
    with Cons.prems p have "r \<in> snd ` set ngs" "distinct (map snd ngs)" by auto
    from Cons.IH [OF this(2) this(1)] False p show ?thesis by simp
  qed
qed

lemma total_balance_upd:
  "distinct (map snd ngs) \<Longrightarrow> r \<in> snd ` set ngs \<Longrightarrow>
   total_balance (h(r := v)) ngs
     = total_balance h ngs - current_power_balance (h r) + current_power_balance v"
  unfolding total_balance_def by (rule sum_list_store_upd)

lemma market_step_transactions:
  "\<exists>new. transactions (snd (snd (market_step buyer (sellers, h, bc)))) = transactions bc @ new
      \<and> (\<forall>t \<in> set new. 0 < amount t) \<and> chain (snd (snd (market_step buyer (sellers, h, bc)))) = chain bc"
proof (cases sellers)
  case Nil
  then show ?thesis by (simp add: market_step_empty)
next
  case (Cons s rest)
  obtain seller_id seller_ng where s: "s = (seller_id, seller_ng)" by (cases s)
  obtain buyer_id buyer_ng where b: "buyer = (buyer_id, buyer_ng)" by (cases buyer)
  show ?thesis
  proof (cases "trade_amount_of h buyer_ng seller_ng \<le> 0")
    case True
    then show ?thesis by (simp add: Cons s b market_step_skip)
  next
    case False
    then have pos: "0 < trade_amount_of h buyer_ng seller_ng" by simp
    then show ?thesis
      by (simp add: Cons s b market_step_trade [OF pos] Let_def add_transaction_def)
  qed
qed

lemma market_loop_transactions:
  "\<exists>new. transactions (snd (snd (market_loop buyers (sellers, h, bc)))) = transactions bc @ new
      \<and> (\<forall>t \<in> set new. 0 < amount t) \<and> chain (snd (snd (market_loop buyers (sellers, h, bc)))) = chain bc"
proof (induction buyers arbitrary: sellers h bc)
  case Nil
  then show ?case by simp
next
  case (Cons buyer buyers)
  show ?case
  proof (cases "sellers = []")
    case True
    then show ?thesis by simp
  next
    case False
    obtain s' h' bc' where step: "market_step buyer (sellers, h, bc) = (s', h', bc')"
      by (cases "market_step buyer (sellers, h, bc)")
    from market_step_transactions [of buyer sellers h bc] step
    obtain new1 where n1: "transactions bc' = transactions bc @ new1"
      "\<forall>t \<in> set new1. 0 < amount t" "chain bc' = chain bc" by auto
    from Cons.IH [of s' h' bc']
    obtain new2 where n2:
      "transactions (snd (snd (market_loop buyers (s', h', bc')))) = transactions bc' @ new2"
      "\<forall>t \<in> set new2. 0 < amount t"
      "chain (snd (snd (market_loop buyers (s', h', bc')))) = chain bc'" by auto
    have "transactions (snd (snd (market_loop (buyer # buyers) (sellers, h, bc))))
            = transactions bc @ (new1 @ new2)"
      using False step n1 n2 by simp
    moreover have "\<forall>t \<in> set (new1 @ new2). 0 < amount t" using n1 n2 by auto
    moreover have "chain (snd (snd (market_loop (buyer # buyers) (sellers, h, bc)))) = chain bc"
      using False step n1 n2 by simp
    ultimately show ?thesis by blast
  qed
qed

lemma manage_energy_market_transactions:
  "\<exists>new. transactions (snd (manage_energy_market ngs (h, bc))) = transactions bc @ new
      \<and> (\<forall>t \<in> set new. 0 < amount t)
      \<and> chain (snd (manage_energy_market ngs (h, bc))) = chain bc"
  using market_loop_transactions [of "buyers_of h ngs" "sellers_of h ngs" h bc]
  by (simp add: manage_energy_market_def)


subsection \<open>Nanogrid: trade settlement and state update\<close>



subsection \<open>The matching scenario\<close>

lemmas scenario_defs = scenario_nanogrids_def scenario_store_def


lemma round_double_6: "round_double 6 = 6"
  by code_simp

lemma scenario_ledger_transactions: "transactions scenario_ledger = []"
  by (simp add: scenario_ledger_def Blockchain_init_def new_block_def Let_def)

lemma scenario_sellers: "sellers_of scenario_store scenario_nanogrids = [(''A'', 0)]"
  by (simp add: scenario_defs sellers_of_def Nanogrid_init_def)

lemma scenario_buyers: "buyers_of scenario_store scenario_nanogrids = [(''B'', 1)]"
  by (simp add: scenario_defs buyers_of_def Nanogrid_init_def)

lemma scenario_trade_amount: "trade_amount_of scenario_store 1 0 = 4"
  by (simp add: scenario_defs trade_amount_of_def Nanogrid_init_def)

lemma scenario_step:
  "market_step (''B'', 1) ([(''A'', 0)], scenario_store, bc) =
     ([(''A'', 0)],
      scenario_store
        (0 := set_energy_trade (scenario_store 0) 4,
         1 := set_energy_trade (scenario_store 1) (- 4)),
      add_transaction bc ''A'' ''B'' 4)"
proof -
  have pos: "0 < trade_amount_of scenario_store 1 0" by (simp add: scenario_trade_amount)
  have bal: "current_power_balance (set_energy_trade (scenario_store 0) 4) = 6"
    by (simp add: set_energy_trade_balance scenario_store_def Nanogrid_init_def
        round_double_6)
  show ?thesis
    by (simp add: market_step_trade [OF pos] scenario_trade_amount bal Let_def)
qed

lemma scenario_loop:
  "market_loop (buyers_of scenario_store scenario_nanogrids)
     (sellers_of scenario_store scenario_nanogrids, scenario_store, bc) =
     ([(''A'', 0)],
      scenario_store
        (0 := set_energy_trade (scenario_store 0) 4,
         1 := set_energy_trade (scenario_store 1) (- 4)),
      add_transaction bc ''A'' ''B'' 4)"
  by (simp add: scenario_sellers scenario_buyers scenario_step del: fun_upd_apply)





text \<open>
  C8: \<^verbatim>\<open>manage_energy_market\<close> keeps the ledger's pending entries and appends only entries
  with a strictly positive amount; and a pass of the loop body whose trade amount is
  \<open>\<le> 0\<close> records nothing and leaves the pool, the nanogrids and the ledger as they were.
\<close>

theorem C8_no_nonpositive_trade:
  "take (length (transactions bc)) (transactions (snd (manage_energy_market ngs (h, bc))))
     = transactions bc \<and>
   (\<forall>t \<in> set (drop (length (transactions bc))
                 (transactions (snd (manage_energy_market ngs (h, bc))))). 0 < amount t) \<and>
   (trade_amount_of h buyer_ng seller_ng \<le> 0 \<longrightarrow>
      market_step (buyer_id, buyer_ng) ((seller_id, seller_ng) # rest, h, bc)
        = ((seller_id, seller_ng) # rest, h, bc))"
proof -
  from manage_energy_market_transactions [of ngs h bc]
  obtain new where n:
    "transactions (snd (manage_energy_market ngs (h, bc))) = transactions bc @ new"
    "\<forall>t \<in> set new. 0 < amount t" by blast
  have a: "take (length (transactions bc)) (transactions (snd (manage_energy_market ngs (h, bc))))
             = transactions bc"
    by (simp add: n(1))
  have b: "\<forall>t \<in> set (drop (length (transactions bc))
                 (transactions (snd (manage_energy_market ngs (h, bc))))). 0 < amount t"
    using n(2) by (simp add: n(1))
  from a b market_step_skip [of h buyer_ng seller_ng buyer_id seller_id rest bc]
  show ?thesis by blast
qed

text \<open>
  C8 at the scenario (one entry appended, of amount 4), and at a pool whose first seller
  has the balance 0, where the buyer B is skipped.
\<close>

theorem C8_no_nonpositive_trade_witness:
  "drop (length (transactions scenario_ledger))
     (transactions (snd (manage_energy_market scenario_nanogrids (scenario_store, scenario_ledger))))
     = [\<lparr>sender = ''A'', receiver = ''B'', amount = 4\<rparr>] \<and>
   0 < amount \<lparr>sender = ''A'', receiver = ''B'', amount = 4\<rparr> \<and>
   trade_amount_of (scenario_store(0 := (Nanogrid_init 1)\<lparr>current_power_balance := 0\<rparr>)) 1 0 \<le> 0 \<and>
   market_step (''B'', 1)
     ([(''A'', 0)], scenario_store(0 := (Nanogrid_init 1)\<lparr>current_power_balance := 0\<rparr>),
      scenario_ledger)
     = ([(''A'', 0)], scenario_store(0 := (Nanogrid_init 1)\<lparr>current_power_balance := 0\<rparr>),
        scenario_ledger)"
proof -
  have d: "drop (length (transactions scenario_ledger))
     (transactions (snd (manage_energy_market scenario_nanogrids (scenario_store, scenario_ledger))))
     = [\<lparr>sender = ''A'', receiver = ''B'', amount = 4\<rparr>]"
    by (simp add: manage_energy_market_def scenario_loop add_transaction_def
        scenario_ledger_transactions)
  have z: "trade_amount_of (scenario_store(0 := (Nanogrid_init 1)\<lparr>current_power_balance := 0\<rparr>)) 1 0 \<le> 0"
    by (simp add: trade_amount_of_def scenario_store_def Nanogrid_init_def)
  from C8_no_nonpositive_trade [of scenario_ledger scenario_nanogrids scenario_store]
  have p: "0 < amount \<lparr>sender = ''A'', receiver = ''B'', amount = 4\<rparr>"
    unfolding d by simp
  from C8_no_nonpositive_trade [of scenario_ledger _ 
      "scenario_store(0 := (Nanogrid_init 1)\<lparr>current_power_balance := 0\<rparr>)" 1 0 "''B''" "''A''" "[]"] z
  have s: "market_step (''B'', 1)
     ([(''A'', 0)], scenario_store(0 := (Nanogrid_init 1)\<lparr>current_power_balance := 0\<rparr>),
      scenario_ledger)
     = ([(''A'', 0)], scenario_store(0 := (Nanogrid_init 1)\<lparr>current_power_balance := 0\<rparr>),
        scenario_ledger)"
    by blast
  from d p z s show ?thesis by blast
qed

subsection \<open>The ledger\<close>

lemma Blockchain_init_eq:
  "Blockchain_init H now =
     \<lparr>chain = [\<lparr>index = 1, timestamp = now, block_transactions = [], previous_hash = ''0'',
                 block_hash = Some (H \<lparr>index = 1, timestamp = now, block_transactions = [],
                                        previous_hash = ''0'', block_hash = None\<rparr>)\<rparr>],
      transactions = []\<rparr>"
  by (simp add: Blockchain_init_def new_block_def Let_def)

lemma apply_ledger_call_sealed:
  assumes "\<forall>b \<in> set (chain bc). block_hash b = Some (H (unsealed b))"
  shows "\<forall>b \<in> set (chain (apply_ledger_call H bc c)). block_hash b = Some (H (unsealed b))"
  using assms by (cases c) (auto simp: new_block_def add_transaction_def unsealed_def Let_def)

lemma foldl_ledger_sealed:
  "\<forall>b \<in> set (chain bc). block_hash b = Some (H (unsealed b)) \<Longrightarrow>
   \<forall>b \<in> set (chain (foldl (apply_ledger_call H) bc cs)). block_hash b = Some (H (unsealed b))"
proof (induction cs arbitrary: bc)
  case Nil
  then show ?case by simp
next
  case (Cons c cs)
  from Cons.IH [OF apply_ledger_call_sealed [OF Cons.prems]] show ?case by simp
qed

text \<open>
  Whatever calls a ledger receives after its construction, the stored hash of each of
  its blocks is the hash function over the block's four other entries.
\<close>

lemma ledger_hash_reproducible:
  "\<forall>b \<in> set (chain (run_ledger H (Blockchain_init H t0) cs)).
     block_hash b = Some (H (unsealed b))"
  unfolding run_ledger_def
  by (rule foldl_ledger_sealed) (simp add: Blockchain_init_eq unsealed_def)

text \<open>
  C1, the link between blocks: \<^verbatim>\<open>new_block()\<close> on the fresh ledger. The genesis block is
  as the claim says, and its stored hash is the hash function over its four entries. The
  second block's \<^verbatim>\<open>previous_hash\<close> is the hash function over the stored genesis block, which
  by then holds a fifth entry, \<^verbatim>\<open>"hash"\<close>: it equals the genesis block's stored hash only if
  the hash function gives two different dictionaries the same digest.
\<close>

theorem C1_link_hashes_the_sealed_block:
  "chain (Blockchain_init H t0) =
     [\<lparr>index = 1, timestamp = t0, block_transactions = [], previous_hash = ''0'',
       block_hash = Some (H \<lparr>index = 1, timestamp = t0, block_transactions = [],
                              previous_hash = ''0'', block_hash = None\<rparr>)\<rparr>] \<and>
   length (chain (fst (new_block H t1 None (Blockchain_init H t0)))) = 2 \<and>
   chain (fst (new_block H t1 None (Blockchain_init H t0))) ! 0
     = hd (chain (Blockchain_init H t0)) \<and>
   block_hash (chain (fst (new_block H t1 None (Blockchain_init H t0))) ! 0)
     = Some (H (unsealed (hd (chain (Blockchain_init H t0))))) \<and>
   previous_hash (chain (fst (new_block H t1 None (Blockchain_init H t0))) ! 1)
     = H (hd (chain (Blockchain_init H t0))) \<and>
   hd (chain (Blockchain_init H t0)) \<noteq> unsealed (hd (chain (Blockchain_init H t0))) \<and>
   (Some (previous_hash (chain (fst (new_block H t1 None (Blockchain_init H t0))) ! 1))
      = block_hash (chain (fst (new_block H t1 None (Blockchain_init H t0))) ! 0))
     = (H (hd (chain (Blockchain_init H t0)))
          = H (unsealed (hd (chain (Blockchain_init H t0)))))"
  by (simp add: Blockchain_init_eq new_block_def Let_def unsealed_def)

subsection \<open>The simulation loop and the transactions endpoint: properties\<close>

lemma simulation_tick_blockchain:
  "blockchain (simulation_tick draws st) =
     snd (manage_energy_market (nanogrids st)
            (update_all (nanogrids st) draws 0 (objects st), blockchain st))"
  by (simp add: simulation_tick_def Let_def split: prod.splits)

lemma simulation_tick_chain:
  "chain (blockchain (simulation_tick draws st)) = chain (blockchain st)"
  using manage_energy_market_transactions
    [of "nanogrids st" "update_all (nanogrids st) draws 0 (objects st)" "blockchain st"]
  by (auto simp: simulation_tick_blockchain)

lemma simulation_tick_transactions:
  "\<exists>new. transactions (blockchain (simulation_tick draws st))
            = transactions (blockchain st) @ new"
  using manage_energy_market_transactions
    [of "nanogrids st" "update_all (nanogrids st) draws 0 (objects st)" "blockchain st"]
  by (auto simp: simulation_tick_blockchain)

lemma run_simulation_chain:
  "chain (blockchain (run_simulation n draws st)) = chain (blockchain st)"
  by (induction n) (simp_all add: simulation_tick_chain)

text \<open>
  C2, as stated, fails: the loop body never calls \<^verbatim>\<open>new_block\<close>. After
  \<^verbatim>\<open>init_simulation(2)\<close> and one tick that produced one trade, the chain still holds one
  block, not two; the trade is in the pending buffer.
\<close>

theorem C2_one_tick_counterexample:
  "length (chain (blockchain scenario_simulation)) = 1 \<and>
   transactions (blockchain (simulation_tick scenario_draws scenario_simulation)) =
     [\<lparr>sender = ''0x0000000000000000000000000000000000000001'',
       receiver = ''0x0000000000000000000000000000000000000002'', amount = 5\<rparr>] \<and>
   length (chain (blockchain (simulation_tick scenario_draws scenario_simulation))) = 1 \<and>
   length (chain (blockchain (simulation_tick scenario_draws scenario_simulation))) \<noteq> 2"
  by code_simp

text \<open>
  C2, amended: a tick seals no block. Each iteration updates the nanogrids and calls
  \<^verbatim>\<open>manage_energy_market\<close> once, which leaves the chain as it was and appends the tick's
  trades to the pending buffer; after any number of ticks from \<^verbatim>\<open>init_simulation\<close> the ledger
  holds exactly one block, the genesis block, unchanged.
\<close>

theorem C2_ticks_seal_no_block:
  "chain (blockchain (simulation_tick draws st)) = chain (blockchain st) \<and>
   take (length (transactions (blockchain st)))
     (transactions (blockchain (simulation_tick draws st))) = transactions (blockchain st) \<and>
   blockchain (simulation_tick draws st) =
     snd (manage_energy_market (nanogrids st)
            (update_all (nanogrids st) draws 0 (objects st), blockchain st)) \<and>
   chain (blockchain (run_simulation n ticks (init_simulation H now k)))
     = chain (Blockchain_init H now) \<and>
   length (chain (blockchain (run_simulation n ticks (init_simulation H now k)))) = 1 \<and>
   hd (chain (blockchain (run_simulation n ticks (init_simulation H now k))))
     = hd (chain (Blockchain_init H now))"
proof -
  from simulation_tick_transactions [of draws st]
  obtain new where "transactions (blockchain (simulation_tick draws st))
            = transactions (blockchain st) @ new" ..
  then have pre: "take (length (transactions (blockchain st)))
     (transactions (blockchain (simulation_tick draws st))) = transactions (blockchain st)"
    by simp
  have init: "blockchain (init_simulation H now k) = Blockchain_init H now"
    by (simp add: init_simulation_def)
  have run: "chain (blockchain (run_simulation n ticks (init_simulation H now k)))
     = chain (Blockchain_init H now)"
    by (simp add: run_simulation_chain init)
  have len: "length (chain (Blockchain_init H now)) = 1"
    by (simp add: Blockchain_init_eq)
  from pre run len simulation_tick_chain [of draws st] simulation_tick_blockchain [of draws st]
  show ?thesis by simp
qed

lemma transaction_records_trades:
  "map (\<lambda>r. (api_sender r, api_receiver r, amountInKwh r)) (transaction_records clock i txs)
     = map (\<lambda>t. (sender t, receiver t, amount t)) txs"
  by (induction txs arbitrary: i) simp_all

lemma transaction_records_timestamps:
  "map api_timestamp (transaction_records clock i txs)
     = map (\<lambda>j. py_int (clock j)) [i..<i + length txs]"
proof (induction txs arbitrary: i)
  case Nil
  then show ?case by simp
next
  case (Cons tx txs)
  have "i < i + length (tx # txs)" by simp
  from upt_conv_Cons [OF this]
  have "[i..<i + length (tx # txs)] = i # [Suc i..<Suc i + length txs]"
    by simp
  with Cons.IH [of "Suc i"] show ?case by simp
qed

lemma transaction_records_length: "length (transaction_records clock i txs) = length txs"
  by (induction txs arbitrary: i) simp_all

lemma transaction_records_append:
  "transaction_records clock i (xs @ ys)
     = transaction_records clock i xs @ transaction_records clock (i + length xs) ys"
  by (induction xs arbitrary: i) simp_all

text \<open>
  C3, as stated, fails: the endpoint reads the pending buffer, not the sealed blocks.
  After one tick with one trade the sealed blocks hold no trade, and the endpoint returns
  one record.
\<close>

theorem C3_pending_buffer_counterexample:
  "sealed_trades (blockchain (simulation_tick scenario_draws scenario_simulation)) = [] \<and>
   get_blockchain_transactions (\<lambda>i. 1000 + real i / 1000)
       (simulation_tick scenario_draws scenario_simulation) =
     [\<lparr>api_sender = ''0x0000000000000000000000000000000000000001'',
       api_receiver = ''0x0000000000000000000000000000000000000002'',
       amountInKwh = 5, api_timestamp = 1000\<rparr>] \<and>
   map (\<lambda>r. (api_sender r, api_receiver r, amountInKwh r))
     (get_blockchain_transactions (\<lambda>i. 1000 + real i / 1000)
        (simulation_tick scenario_draws scenario_simulation))
   \<noteq> map (\<lambda>t. (sender t, receiver t, amount t))
       (sealed_trades (blockchain (simulation_tick scenario_draws scenario_simulation)))"
  by code_simp

text \<open>
  C3, amended: in simulation mode the endpoint returns one record per entry of the
  ledger's pending (unsealed) buffer, in the buffer's order, oldest first, with the
  entry's sender, receiver and amount; the timestamp of the record at position \<open>i\<close> is the
  clock reading taken when that record is built, truncated to an integer, not the time of
  the trade. A tick only appends to what it returns. It reads no sealed block: right
  after a block is sealed it returns the empty list.
\<close>

theorem C3_endpoint_returns_pending_buffer:
  "map (\<lambda>r. (api_sender r, api_receiver r, amountInKwh r)) (get_blockchain_transactions clock st)
     = map (\<lambda>t. (sender t, receiver t, amount t)) (transactions (blockchain st)) \<and>
   map api_timestamp (get_blockchain_transactions clock st)
     = map (\<lambda>i. py_int (clock i)) [0..<length (transactions (blockchain st))] \<and>
   take (length (get_blockchain_transactions clock st))
     (get_blockchain_transactions clock (simulation_tick draws st))
     = get_blockchain_transactions clock st \<and>
   get_blockchain_transactions clock
     (st\<lparr>blockchain := fst (new_block H t prev (blockchain st))\<rparr>) = []"
proof -
  have a: "map (\<lambda>r. (api_sender r, api_receiver r, amountInKwh r))
             (get_blockchain_transactions clock st)
     = map (\<lambda>t. (sender t, receiver t, amount t)) (transactions (blockchain st))"
    by (simp add: get_blockchain_transactions_def transaction_records_trades)
  have b: "map api_timestamp (get_blockchain_transactions clock st)
     = map (\<lambda>i. py_int (clock i)) [0..<length (transactions (blockchain st))]"
    using transaction_records_timestamps [of clock 0 "transactions (blockchain st)"]
    by (simp add: get_blockchain_transactions_def)
  from simulation_tick_transactions [of draws st]
  obtain new where "transactions (blockchain (simulation_tick draws st))
            = transactions (blockchain st) @ new" ..
  then have c: "take (length (get_blockchain_transactions clock st))
     (get_blockchain_transactions clock (simulation_tick draws st))
     = get_blockchain_transactions clock st"
    by (simp add: get_blockchain_transactions_def transaction_records_append
        transaction_records_length)
  have d: "get_blockchain_transactions clock
     (st\<lparr>blockchain := fst (new_block H t prev (blockchain st))\<rparr>) = []"
    by (simp add: get_blockchain_transactions_def new_block_def Let_def)
  from a b c d show ?thesis by simp
qed

end
